theory Spec2Isabelle
  imports Complex_Main
begin

section \<open>JavaScript values used by the scraper\<close>

text \<open>
  The repository is TypeScript. Every function below is a translation of one function of
  \<^verbatim>\<open>src/src/index.ts\<close>, \<^verbatim>\<open>src/src/frappe.ts\<close> or the MySQL module
  (\<^verbatim>\<open>src/unnamed/part_001\<close>), or a model of a JavaScript built-in those functions call.
  An exception is a value: a function that can throw returns \<open>jserror + 'a\<close>, with
  \<open>Inl\<close> the exception.
\<close>

datatype jserror =
    TypeError
  | RangeError
  | DatabaseError
  | AxiosError "nat option"

subsection \<open>Strings\<close>

text \<open>
  \<^verbatim>\<open>String.prototype\<close>: \<^verbatim>\<open>startsWith\<close>, \<^verbatim>\<open>includes\<close>, \<^verbatim>\<open>indexOf\<close>,
  \<^verbatim>\<open>substring\<close>, \<^verbatim>\<open>split\<close>, \<^verbatim>\<open>replace\<close> with a string pattern (the first
  occurrence only) and \<^verbatim>\<open>slice\<close> with non-negative bounds.
\<close>

definition jsStartsWith :: "string \<Rightarrow> string \<Rightarrow> bool" where
  "jsStartsWith s p = (take (length p) s = p)"

fun jsIncludes :: "string \<Rightarrow> string \<Rightarrow> bool" where
  "jsIncludes [] p = (p = [])"
| "jsIncludes (c # cs) p = (if jsStartsWith (c # cs) p then True else jsIncludes cs p)"

fun jsIndexOfFrom :: "nat \<Rightarrow> string \<Rightarrow> string \<Rightarrow> int" where
  "jsIndexOfFrom i [] p = (if p = [] then int i else - 1)"
| "jsIndexOfFrom i (c # cs) p =
     (if jsStartsWith (c # cs) p then int i else jsIndexOfFrom (Suc i) cs p)"

definition jsIndexOf :: "string \<Rightarrow> string \<Rightarrow> int" where
  "jsIndexOf s p = jsIndexOfFrom 0 s p"

definition jsSubstring :: "string \<Rightarrow> int \<Rightarrow> int \<Rightarrow> string" where
  "jsSubstring s a b =
     (let n = int (length s);
          a' = max 0 (min a n);
          b' = max 0 (min b n);
          lo = min a' b';
          hi = max a' b'
      in take (nat (hi - lo)) (drop (nat lo) s))"

definition jsSlice :: "string \<Rightarrow> nat \<Rightarrow> nat \<Rightarrow> string" where
  "jsSlice s a b = take (b - a) (drop a s)"

text \<open>
  \<^verbatim>\<open>split\<close> with a non-empty separator: the sections between its occurrences, read
  from the left. The result of the recursive call is never empty (\<open>jsSplitOn_nonempty\<close>
  below), so the case of an empty result is never taken.
\<close>

function jsSplitOn :: "string \<Rightarrow> string \<Rightarrow> string list" where
  "jsSplitOn sep s =
     (case s of
        [] \<Rightarrow> [[]]
      | c # cs \<Rightarrow>
          if sep \<noteq> [] \<and> jsStartsWith s sep then [] # jsSplitOn sep (drop (length sep) s)
          else (case jsSplitOn sep cs of
                  [] \<Rightarrow> [[c]]
                | w # ws \<Rightarrow> (c # w) # ws))"
  by pat_completeness auto
termination
  by (relation "measure (\<lambda>(sep, s). length s)") (auto simp: jsStartsWith_def)

declare jsSplitOn.simps [simp del]

definition jsSplit :: "string \<Rightarrow> string \<Rightarrow> string list" where
  "jsSplit s sep = (if sep = [] then map (\<lambda>c. [c]) s else jsSplitOn sep s)"

fun jsReplaceFirst :: "string \<Rightarrow> string \<Rightarrow> string \<Rightarrow> string" where
  "jsReplaceFirst [] p r = (if p = [] then r else [])"
| "jsReplaceFirst (c # cs) p r =
     (if jsStartsWith (c # cs) p then r @ drop (length p) (c # cs)
      else c # jsReplaceFirst cs p r)"

definition jsEndsWith :: "string \<Rightarrow> string \<Rightarrow> bool" where
  "jsEndsWith s p = (length p \<le> length s \<and> drop (length s - length p) s = p)"

definition isDigit :: "char \<Rightarrow> bool" where
  "isDigit c = (c \<in> set ''0123456789'')"

subsection \<open>Numbers\<close>

text \<open>
  A JavaScript number is an IEEE 754 double: a finite value, an infinity or \<open>NaN\<close>.
  \<open>Num x\<close> is the finite double of value \<open>x\<close>. A finite double is a multiple of
  its unit in the last place, \<open>2\<close> to the power \<open>e - 52\<close> where \<open>e\<close> is the binary
  exponent of the value and at least \<open>-1022\<close>, with at most 53 bits. The two zeros are
  one value here: nothing below tells them apart.
\<close>

datatype jsnum = Num real | PosInfinity | NegInfinity | NaN

text \<open>The number of bits of a positive integer.\<close>

function bitLength :: "int \<Rightarrow> nat" where
  "bitLength n = (if n \<le> 0 then 0 else Suc (bitLength (n div 2)))"
  by pat_completeness auto
termination
  by (relation "measure nat") auto

declare bitLength.simps [simp del]

text \<open>
  The binary exponent of a positive real: the \<open>e\<close> with \<open>x\<close> at least \<open>2\<close> to the
  \<open>e\<close> and below \<open>2\<close> to the \<open>e + 1\<close>.
\<close>

definition floorLog2 :: "real \<Rightarrow> int" where
  "floorLog2 x =
     (if x \<ge> 1 then int (bitLength \<lfloor>x\<rfloor>) - 1
      else - int (bitLength (\<lceil>1 / x\<rceil> - 1)))"

definition twoTo :: "int \<Rightarrow> real" where
  "twoTo k = (if k \<ge> 0 then 2 ^ nat k else 1 / 2 ^ nat (- k))"

definition ulp :: "real \<Rightarrow> real" where
  "ulp x = twoTo (max (floorLog2 \<bar>x\<bar>) (- 1022) - 52)"

definition roundTiesToEven :: "real \<Rightarrow> int" where
  "roundTiesToEven r =
     (let f = \<lfloor>r\<rfloor>
      in if r - of_int f < 1 / 2 then f
         else if r - of_int f > 1 / 2 then f + 1
         else if even f then f else f + 1)"

text \<open>The multiple of the unit in the last place that is nearest to a real.\<close>

definition roundDouble :: "real \<Rightarrow> real" where
  "roundDouble x =
     (if x = 0 then 0
      else sgn x * of_int (roundTiesToEven (\<bar>x\<bar> / ulp x)) * ulp x)"

text \<open>
  The double nearest to a real, an infinity from \<open>2\<close> to the \<open>1024\<close> on: the value of
  a numeric literal, of \<^verbatim>\<open>Number\<close> on a decimal string and of the exact result of an
  arithmetic operation. \<open>toDouble 0.05\<close> is the literal \<^verbatim>\<open>0.05\<close>, which is not the
  real \<open>0.05\<close>.
\<close>

definition toDouble :: "real \<Rightarrow> jsnum" where
  "toDouble x =
     (let r = roundDouble x
      in if r \<ge> 2 ^ 1024 then PosInfinity
         else if r \<le> - (2 ^ 1024) then NegInfinity
         else Num r)"

text \<open>
  Subtraction, \<^verbatim>\<open>Math.abs\<close> and the comparisons \<^verbatim>\<open>>\<close> and \<^verbatim>\<open><=\<close>. The
  difference of two finite doubles is the exact difference, rounded. Every comparison with
  \<open>NaN\<close> is false.
\<close>

fun jsSub :: "jsnum \<Rightarrow> jsnum \<Rightarrow> jsnum" where
  "jsSub (Num a) (Num b) = toDouble (a - b)"
| "jsSub NaN _ = NaN"
| "jsSub _ NaN = NaN"
| "jsSub PosInfinity PosInfinity = NaN"
| "jsSub NegInfinity NegInfinity = NaN"
| "jsSub PosInfinity _ = PosInfinity"
| "jsSub NegInfinity _ = NegInfinity"
| "jsSub (Num a) PosInfinity = NegInfinity"
| "jsSub (Num a) NegInfinity = PosInfinity"

fun jsAbs :: "jsnum \<Rightarrow> jsnum" where
  "jsAbs (Num a) = Num \<bar>a\<bar>"
| "jsAbs PosInfinity = PosInfinity"
| "jsAbs NegInfinity = PosInfinity"
| "jsAbs NaN = NaN"

fun jsGt :: "jsnum \<Rightarrow> jsnum \<Rightarrow> bool" where
  "jsGt NaN _ = False"
| "jsGt _ NaN = False"
| "jsGt (Num a) (Num b) = (a > b)"
| "jsGt PosInfinity PosInfinity = False"
| "jsGt PosInfinity _ = True"
| "jsGt _ PosInfinity = False"
| "jsGt NegInfinity _ = False"
| "jsGt (Num a) NegInfinity = True"

fun jsLe :: "jsnum \<Rightarrow> jsnum \<Rightarrow> bool" where
  "jsLe NaN _ = False"
| "jsLe _ NaN = False"
| "jsLe (Num a) (Num b) = (a \<le> b)"
| "jsLe NegInfinity _ = True"
| "jsLe _ PosInfinity = True"
| "jsLe PosInfinity _ = False"
| "jsLe (Num a) NegInfinity = False"

fun isNaN :: "jsnum \<Rightarrow> bool" where
  "isNaN NaN = True"
| "isNaN _ = False"

subsection \<open>Dates\<close>

text \<open>
  A \<^verbatim>\<open>Date\<close> object holds a time value, the milliseconds since the epoch in UTC, or is
  invalid. \<^verbatim>\<open>toISOString\<close> prints the UTC fields (\<^verbatim>\<open>2026-11-02T01:00:00.000Z\<close>) and
  throws a RangeError on an invalid date; \<^verbatim>\<open>toString\<close> prints the local fields
  (\<^verbatim>\<open>Mon Nov 02 2026 14:00:00 GMT+1300\<close>, before the implementation's optional time zone
  name) and yields \<^verbatim>\<open>Invalid Date\<close> on an invalid date. The local time zone is a
  parameter: its offset from UTC in minutes.
\<close>

datatype jsdate = TimeValue int | InvalidDate

definition digitChar :: "nat \<Rightarrow> char" where
  "digitChar d = ''0123456789'' ! (d mod 10)"

fun showNat :: "nat \<Rightarrow> string" where
  "showNat n = (if n < 10 then [digitChar n] else showNat (n div 10) @ [digitChar (n mod 10)])"

declare showNat.simps [simp del]

definition padZero :: "nat \<Rightarrow> nat \<Rightarrow> string" where
  "padZero w n = replicate (w - length (showNat n)) (CHR ''0'') @ showNat n"

definition Day :: "int \<Rightarrow> int" where
  "Day t = t div 86400000"

definition WeekDay :: "int \<Rightarrow> nat" where
  "WeekDay t = nat ((Day t + 4) mod 7)"

definition civilFromDays :: "int \<Rightarrow> int \<times> int \<times> int" where
  "civilFromDays days =
     (let z = days + 719468;
          era = z div 146097;
          doe = z - era * 146097;
          yoe = (doe - doe div 1460 + doe div 36524 - doe div 146096) div 365;
          y = yoe + era * 400;
          doy = doe - (365 * yoe + yoe div 4 - yoe div 100);
          mp = (5 * doy + 2) div 153;
          d = doy - (153 * mp + 2) div 5 + 1;
          m = (if mp < 10 then mp + 3 else mp - 9)
      in (if m \<le> 2 then y + 1 else y, m, d))"

definition YearFromTime :: "int \<Rightarrow> int" where
  "YearFromTime t = fst (civilFromDays (Day t))"

definition MonthFromTime :: "int \<Rightarrow> nat" where
  "MonthFromTime t = nat (fst (snd (civilFromDays (Day t))))"

definition DateFromTime :: "int \<Rightarrow> nat" where
  "DateFromTime t = nat (snd (snd (civilFromDays (Day t))))"

definition HourFromTime :: "int \<Rightarrow> nat" where
  "HourFromTime t = nat ((t div 3600000) mod 24)"

definition MinFromTime :: "int \<Rightarrow> nat" where
  "MinFromTime t = nat ((t div 60000) mod 60)"

definition SecFromTime :: "int \<Rightarrow> nat" where
  "SecFromTime t = nat ((t div 1000) mod 60)"

definition msFromTime :: "int \<Rightarrow> nat" where
  "msFromTime t = nat (t mod 1000)"

definition weekDayNames :: "string list" where
  "weekDayNames = [''Sun'', ''Mon'', ''Tue'', ''Wed'', ''Thu'', ''Fri'', ''Sat'']"

definition monthNames :: "string list" where
  "monthNames = [''Jan'', ''Feb'', ''Mar'', ''Apr'', ''May'', ''Jun'',
                 ''Jul'', ''Aug'', ''Sep'', ''Oct'', ''Nov'', ''Dec'']"

definition isoYear :: "int \<Rightarrow> string" where
  "isoYear y =
     (if 0 \<le> y \<and> y \<le> 9999 then padZero 4 (nat y)
      else (if y < 0 then ''-'' else ''+'') @ padZero 6 (nat \<bar>y\<bar>))"

definition dateToISOString :: "jsdate \<Rightarrow> jserror + string" where
  "dateToISOString d =
     (case d of
        InvalidDate \<Rightarrow> Inl RangeError
      | TimeValue t \<Rightarrow>
          Inr (isoYear (YearFromTime t) @ ''-'' @ padZero 2 (MonthFromTime t) @ ''-'' @
               padZero 2 (DateFromTime t) @ ''T'' @ padZero 2 (HourFromTime t) @ '':'' @
               padZero 2 (MinFromTime t) @ '':'' @ padZero 2 (SecFromTime t) @ ''.'' @
               padZero 3 (msFromTime t) @ ''Z''))"

definition dateToString :: "int \<Rightarrow> jsdate \<Rightarrow> string" where
  "dateToString tzMinutes d =
     (case d of
        InvalidDate \<Rightarrow> ''Invalid Date''
      | TimeValue utc \<Rightarrow>
          let t = utc + tzMinutes * 60000 in
          weekDayNames ! WeekDay t @ '' '' @ monthNames ! (MonthFromTime t - 1) @ '' '' @
          padZero 2 (DateFromTime t) @ '' '' @
          (if YearFromTime t < 0 then ''-'' else []) @ padZero 4 (nat \<bar>YearFromTime t\<bar>) @
          '' '' @ padZero 2 (HourFromTime t) @ '':'' @ padZero 2 (MinFromTime t) @ '':'' @
          padZero 2 (SecFromTime t) @ '' GMT'' @ (if tzMinutes < 0 then ''-'' else ''+'') @
          padZero 2 (nat (\<bar>tzMinutes\<bar> div 60)) @ padZero 2 (nat (\<bar>tzMinutes\<bar> mod 60)))"

text \<open>
  The value of a date field of a record. \<^verbatim>\<open>Product\<close> declares its dates as
  \<^verbatim>\<open>Date\<close>, and a scraped product holds \<^verbatim>\<open>new Date()\<close>. A stored record is
  cast to \<^verbatim>\<open>Product\<close> unchecked (\<^verbatim>\<open>rows[0] as Product\<close>), so at run time its date field
  holds what the driver returned: a \<^verbatim>\<open>Date\<close> object, a string (a date read back from
  JSON) or null. \<^verbatim>\<open>toString\<close> is defined on the first two and is the identity on a
  string; \<^verbatim>\<open>toISOString\<close> exists on a \<^verbatim>\<open>Date\<close> only.
\<close>

datatype datefield = DateObject jsdate | DateString string | DateNull

definition fieldToString :: "int \<Rightarrow> datefield \<Rightarrow> jserror + string" where
  "fieldToString tzMinutes f =
     (case f of
        DateObject d \<Rightarrow> Inr (dateToString tzMinutes d)
      | DateString s \<Rightarrow> Inr s
      | DateNull \<Rightarrow> Inl TypeError)"

definition fieldToISOString :: "datefield \<Rightarrow> jserror + string" where
  "fieldToISOString f =
     (case f of
        DateObject d \<Rightarrow> dateToISOString d
      | DateString s \<Rightarrow> Inl TypeError
      | DateNull \<Rightarrow> Inl TypeError)"

section \<open>The data model (typings)\<close>

text \<open>
  \<^verbatim>\<open>typings\<close> is not among the sources; the records follow the object literals of
  \<^verbatim>\<open>playwrightElementToProduct\<close> and the columns of the \<^verbatim>\<open>products\<close> table. A
  \<open>None\<close> in \<open>priceHistory\<close> is an \<^verbatim>\<open>undefined\<close> element, which
  \<^verbatim>\<open>push(scrapedProduct.priceHistory[0])\<close> appends when the scraped history is empty; a
  \<open>None\<close> category is \<^verbatim>\<open>null\<close>, which \<^verbatim>\<open>buildUpdatedProduct\<close> tests for. The
  fields \<^verbatim>\<open>id\<close> and \<^verbatim>\<open>size\<close> are \<open>id_f\<close> and \<open>size_f\<close> here.
\<close>

record DatedPrice =
  date :: datefield
  price :: jsnum

record Product =
  id_f :: string
  name :: string
  size_f :: "string option"
  sourceSite :: string
  category :: "string list option"
  lastChecked :: datefield
  lastUpdated :: datefield
  priceHistory :: "DatedPrice option list"
  currentPrice :: jsnum
  unitPrice :: "jsnum option"
  unitName :: "string option"
  originalUnitQuantity :: "jsnum option"

text \<open>
  Modelled from the spec: the enum \<^verbatim>\<open>UpsertResponse\<close> of the missing \<^verbatim>\<open>typings\<close>.
  The spec lists five members, the five cases of the \<^verbatim>\<open>switch\<close> in \<^verbatim>\<open>index.ts\<close>;
  \<open>Updated\<close> stands for \<^verbatim>\<open>UpsertResponse.Updated\<close>, which \<^verbatim>\<open>frappe.ts\<close> returns and
  which is none of the five.
\<close>

datatype UpsertResponse =
    NewProduct
  | PriceChanged
  | InfoChanged
  | AlreadyUpToDate
  | Failed
  | Updated

record CategorisedUrl =
  url :: string
  categories :: "string list"

section \<open>index.ts\<close>

subsection \<open>parseAndCategoriseURL\<close>

text \<open>The body of the \<^verbatim>\<open>forEach\<close> over \<^verbatim>\<open>line.split(' ')\<close>.\<close>

definition processSection :: "string \<Rightarrow> CategorisedUrl \<Rightarrow> string \<Rightarrow> CategorisedUrl" where
  "processSection line categorisedUrl section =
     (if jsIncludes section ''countdown.co.nz'' then
        let u1 = section;
            u2 = (if \<not> jsStartsWith u1 ''http'' then ''https://'' @ u1 else u1);
            u3 = (if jsIncludes u2 ''?'' then jsSubstring line 0 (jsIndexOf line ''?'') else u2)
        in categorisedUrl\<lparr>url := u3 @ ''?page=1&size=48&inStockProductsOnly=true''\<rparr>
      else if jsStartsWith section ''categories='' then
        let splitCategories =
              (if jsIncludes section '', ''
               then jsSplit (jsReplaceFirst section ''categories='' []) '', ''
               else [jsReplaceFirst section ''categories='' []])
        in categorisedUrl\<lparr>categories := splitCategories\<rparr>
      else categorisedUrl)"

text \<open>
  \<open>None\<close> is \<^verbatim>\<open>undefined\<close>. \<^verbatim>\<open>split\<close> never returns an empty array
  (\<open>jsSplitOn_nonempty\<close> below), so \<^verbatim>\<open>split('?')[0]\<close> is \<open>hd\<close> and the last slash
  section is \<open>last\<close>.
\<close>

definition parseAndCategoriseURL :: "string \<Rightarrow> CategorisedUrl option" where
  "parseAndCategoriseURL line =
     (if \<not> jsIncludes line ''countdown.co.nz'' then None
      else
        let categorisedUrl =
              foldl (processSection line) \<lparr>url = [], categories = []\<rparr> (jsSplit line '' '')
        in if length (categories categorisedUrl) = 0 then
             let baseUrl = hd (jsSplit (url categorisedUrl) ''?'');
                 slashSections = jsSplit baseUrl ''/''
             in Some (categorisedUrl\<lparr>categories := [last slashSections]\<rparr>)
           else Some categorisedUrl)"

subsection \<open>validateProduct and playwrightElementToProduct\<close>

definition validateProduct :: "Product \<Rightarrow> bool" where
  "validateProduct product =
     (if length (name product) < 4 \<or> length (name product) > 100 then False
      else if length (id_f product) < 2 \<or> length (id_f product) > 20 then False
      else if jsLe (currentPrice product) (Num 0) \<or> isNaN (currentPrice product) \<or>
              jsGt (currentPrice product) (Num 999) then False
      else True)"

text \<open>
  What the selectors read from one \<^verbatim>\<open>a.product-entry\<close> element, after
  \<^verbatim>\<open>text().trim()\<close>: the DOM library is outside the repository. \<open>h3Id\<close> is
  \<^verbatim>\<open>attr('id')\<close>, \<open>None\<close> when the attribute is missing.
\<close>

record ProductEntry =
  h3Id :: "string option"
  h3Text :: string
  sizeText :: string
  dollarText :: string
  centText :: string

text \<open>
  The library functions \<^verbatim>\<open>_.startCase\<close> and \<^verbatim>\<open>Number\<close> are parameters, and so are
  the three readings of the clock (\<^verbatim>\<open>new Date()\<close> for \<open>lastChecked\<close>, for
  \<open>lastUpdated\<close> and for the dated price). With no \<^verbatim>\<open>id\<close> attribute
  \<^verbatim>\<open>product.id\<close> is \<^verbatim>\<open>undefined\<close>, and \<^verbatim>\<open>validateProduct\<close> returns false: at the
  name check, or by catching the TypeError of \<^verbatim>\<open>product.id.length\<close>.
\<close>

definition playwrightElementToProduct ::
  "(string \<Rightarrow> string) \<Rightarrow> (string \<Rightarrow> jsnum) \<Rightarrow> jsdate \<times> jsdate \<times> jsdate \<Rightarrow>
   ProductEntry \<Rightarrow> string list \<Rightarrow> Product option" where
  "playwrightElementToProduct startCase toNumber clock element categories0 =
     (case h3Id element of
        None \<Rightarrow> None
      | Some idAttr \<Rightarrow>
          let (now1, now2, now3) = clock;
              centString = filter isDigit (centText element);
              currentPrice0 = toNumber (dollarText element @ ''.'' @ centString);
              todaysDatedPrice = \<lparr>date = DateObject now3, price = currentPrice0\<rparr>;
              product =
                \<lparr>id_f = filter isDigit idAttr,
                 name = startCase (h3Text element),
                 size_f = Some (sizeText element),
                 sourceSite = ''countdown.co.nz'',
                 category = Some categories0,
                 lastChecked = DateObject now1,
                 lastUpdated = DateObject now2,
                 priceHistory = [Some todaysDatedPrice],
                 currentPrice = currentPrice0,
                 unitPrice = None,
                 unitName = None,
                 originalUnitQuantity = None\<rparr>
          in if validateProduct product then Some product else None)"

section \<open>The MySQL module\<close>

subsection \<open>buildUpdatedProduct\<close>

text \<open>
  \<^verbatim>\<open>validCategories\<close> is imported from \<^verbatim>\<open>utilities\<close>, whose source does not define
  it: it is a parameter, with the local time zone.
\<close>

record globals =
  validCategories :: "string list"
  tzMinutes :: int

text \<open>\<^verbatim>\<open>xs[0]\<close>: \<^verbatim>\<open>undefined\<close> on an empty array.\<close>

definition jsFirst :: "'a option list \<Rightarrow> 'a option" where
  "jsFirst xs = (case xs of [] \<Rightarrow> None | x # _ \<Rightarrow> x)"

text \<open>
  The function mutates its arguments and returns one of them; the model returns the value
  of the returned object. In the second branch \<^verbatim>\<open>dbProduct.category.every\<close> is evaluated
  before \<^verbatim>\<open>dbProduct.category === null\<close>, so a null category throws a TypeError, and
  where \<^verbatim>\<open>every\<close> returned the category is not null. The log line of that branch joins
  \<^verbatim>\<open>scrapedProduct.category\<close>, a TypeError when it is null. \<^verbatim>\<open>logPriceChange\<close> only
  prints.
\<close>

definition buildUpdatedProduct ::
  "globals \<Rightarrow> Product \<Rightarrow> Product \<Rightarrow> jserror + (UpsertResponse \<times> Product)" where
  "buildUpdatedProduct g scrapedProduct dbProduct =
     (case fieldToString (tzMinutes g) (lastUpdated dbProduct) of
        Inl e \<Rightarrow> Inl e
      | Inr dbString \<Rightarrow>
     (case fieldToISOString (lastUpdated scrapedProduct) of
        Inl e \<Rightarrow> Inl e
      | Inr scrapedString \<Rightarrow>
          let dbDay = jsSlice dbString 0 10;
              scrapedDay = jsSlice scrapedString 0 10;
              priceDifference = jsAbs (jsSub (currentPrice dbProduct) (currentPrice scrapedProduct))
          in
          if jsGt priceDifference (toDouble 0.05) \<and> dbDay \<noteq> scrapedDay then
            Inr (PriceChanged,
                 scrapedProduct\<lparr>priceHistory :=
                   priceHistory dbProduct @ [jsFirst (priceHistory scrapedProduct)]\<rparr>)
          else
            (case category dbProduct of
               None \<Rightarrow> Inl TypeError
             | Some dbCategory \<Rightarrow>
                 if \<not> list_all (\<lambda>c. c \<in> set (validCategories g)) dbCategory then
                   (case category scrapedProduct of
                      None \<Rightarrow> Inl TypeError
                    | Some scrapedCategory \<Rightarrow>
                        Inr (InfoChanged,
                             scrapedProduct\<lparr>priceHistory := priceHistory dbProduct,
                                            lastUpdated := lastUpdated dbProduct\<rparr>))
                 else
                   Inr (AlreadyUpToDate,
                        dbProduct\<lparr>lastChecked := lastChecked scrapedProduct\<rparr>))))"

subsection \<open>upsertProductToMySQL\<close>

text \<open>
  The connection: the rows of the \<^verbatim>\<open>products\<close> table by primary key, and whether the
  server rejects the next \<^verbatim>\<open>SELECT\<close> or the next write. A row holds the values as
  the module would read them back; the conversions of the column types are not modelled.
\<close>

record connection =
  products :: "string \<rightharpoonup> Product"
  selectError :: "jserror option"
  writeError :: "jserror option"

definition executeSelect :: "connection \<Rightarrow> string \<Rightarrow> jserror + Product list" where
  "executeSelect conn key =
     (case selectError conn of
        Some e \<Rightarrow> Inl e
      | None \<Rightarrow> Inr (case products conn key of None \<Rightarrow> [] | Some row \<Rightarrow> [row]))"

text \<open>
  \<^verbatim>\<open>UPDATE products SET name, category, sourceSite, size, unitPrice, unitName,
  originalUnitQuantity, currentPrice, priceHistory, lastUpdated WHERE id = ?\<close>: the ten
  columns of the statement, and no other.
\<close>

definition executeUpdate :: "connection \<Rightarrow> string \<Rightarrow> Product \<Rightarrow> jserror + connection" where
  "executeUpdate conn key p =
     (case writeError conn of
        Some e \<Rightarrow> Inl e
      | None \<Rightarrow>
          (case products conn key of
             None \<Rightarrow> Inr conn
           | Some row \<Rightarrow>
               Inr (conn\<lparr>products := (products conn)(key \<mapsto>
                 row\<lparr>name := name p,
                     category := category p,
                     sourceSite := sourceSite p,
                     size_f := size_f p,
                     unitPrice := unitPrice p,
                     unitName := unitName p,
                     originalUnitQuantity := originalUnitQuantity p,
                     currentPrice := currentPrice p,
                     priceHistory := priceHistory p,
                     lastUpdated := lastUpdated p\<rparr>)\<rparr>)))"

text \<open>\<^verbatim>\<open>INSERT INTO products\<close> with all twelve columns; a duplicate key is an error.\<close>

definition executeInsert :: "connection \<Rightarrow> Product \<Rightarrow> jserror + connection" where
  "executeInsert conn p =
     (case writeError conn of
        Some e \<Rightarrow> Inl e
      | None \<Rightarrow>
          (case products conn (id_f p) of
             Some row \<Rightarrow> Inl DatabaseError
           | None \<Rightarrow> Inr (conn\<lparr>products := (products conn)(id_f p \<mapsto> p)\<rparr>)))"

text \<open>The body of the \<^verbatim>\<open>try\<close> block.\<close>

definition upsertBody ::
  "globals \<Rightarrow> connection \<Rightarrow> Product \<Rightarrow> jserror + (UpsertResponse \<times> connection)" where
  "upsertBody g conn scrapedProduct =
     (case executeSelect conn (id_f scrapedProduct) of
        Inl e \<Rightarrow> Inl e
      | Inr rows \<Rightarrow>
          (case rows of
             dbProduct # _ \<Rightarrow>
               (case buildUpdatedProduct g scrapedProduct dbProduct of
                  Inl e \<Rightarrow> Inl e
                | Inr (upsertType, product) \<Rightarrow>
                    (case executeUpdate conn (id_f scrapedProduct) product of
                       Inl e \<Rightarrow> Inl e
                     | Inr conn' \<Rightarrow> Inr (upsertType, conn')))
           | [] \<Rightarrow>
               (case executeInsert conn scrapedProduct of
                  Inl e \<Rightarrow> Inl e
                | Inr conn' \<Rightarrow> Inr (NewProduct, conn'))))"

text \<open>
  The \<^verbatim>\<open>catch\<close> logs the error and returns \<^verbatim>\<open>Failed\<close>. \<open>Inl\<close> would be an
  exception that reaches the caller.
\<close>

definition upsertProductToMySQL ::
  "globals \<Rightarrow> connection \<Rightarrow> Product \<Rightarrow> jserror + (UpsertResponse \<times> connection)" where
  "upsertProductToMySQL g conn scrapedProduct =
     (case upsertBody g conn scrapedProduct of
        Inl e \<Rightarrow> Inr (Failed, conn)
      | Inr r \<Rightarrow> Inr r)"

section \<open>frappe.ts\<close>

text \<open>
  The Frappe server is outside the repository: a request resolves, \<open>Resolved hasData\<close>
  with \<open>hasData\<close> telling whether the response has a \<^verbatim>\<open>data\<close> object, or is
  rejected with an error whose \<^verbatim>\<open>response.status\<close> is the status, if a response came
  at all.
\<close>

datatype http_reply = Resolved bool | Rejected "nat option"

record frappe =
  getReply :: "string \<Rightarrow> http_reply"
  putReply :: "string \<Rightarrow> Product \<Rightarrow> http_reply"
  postReply :: "Product \<Rightarrow> http_reply"

text \<open>\<^verbatim>\<open>error.response && error.response.status\<close>.\<close>

definition responseStatus :: "jserror \<Rightarrow> nat option" where
  "responseStatus e = (case e of AxiosError st \<Rightarrow> st | _ \<Rightarrow> None)"

text \<open>The body of the \<^verbatim>\<open>try\<close> block: the GET, \<^verbatim>\<open>response.data.data\<close>, the PUT.\<close>

definition frappeBody :: "frappe \<Rightarrow> Product \<Rightarrow> jserror + UpsertResponse" where
  "frappeBody server scrapedProduct =
     (case getReply server (id_f scrapedProduct) of
        Rejected st \<Rightarrow> Inl (AxiosError st)
      | Resolved hasData \<Rightarrow>
          if \<not> hasData then Inl TypeError
          else
            (case putReply server (id_f scrapedProduct) scrapedProduct of
               Rejected st \<Rightarrow> Inl (AxiosError st)
             | Resolved _ \<Rightarrow> Inr Updated))"

text \<open>
  The \<^verbatim>\<open>catch\<close> block: on a 404 it creates the record with a POST, which nothing
  guards. \<open>Inl\<close> is an exception that reaches the caller.
\<close>

definition upsertProductToFrappe :: "frappe \<Rightarrow> Product \<Rightarrow> jserror + UpsertResponse" where
  "upsertProductToFrappe server scrapedProduct =
     (case frappeBody server scrapedProduct of
        Inr r \<Rightarrow> Inr r
      | Inl error \<Rightarrow>
          if responseStatus error = Some 404 then
            (case postReply server scrapedProduct of
               Rejected st \<Rightarrow> Inl (AxiosError st)
             | Resolved _ \<Rightarrow> Inr NewProduct)
          else Inr Failed)"

section \<open>Predicates of the specification and sample records\<close>

text \<open>
  The invariant of the data model: \<open>currentPrice\<close> is the price of the last element of
  \<open>priceHistory\<close>.
\<close>

definition priceInvariant :: "Product \<Rightarrow> bool" where
  "priceInvariant p =
     (case priceHistory p of
        [] \<Rightarrow> False
      | _ # _ \<Rightarrow> (case last (priceHistory p) of
                    None \<Rightarrow> False
                  | Some dp \<Rightarrow> price dp = currentPrice p))"

text \<open>
  The first entry of the scraped history is the scraped price, as
  \<^verbatim>\<open>playwrightElementToProduct\<close> builds it.
\<close>

definition scrapedObservation :: "Product \<Rightarrow> bool" where
  "scrapedObservation s =
     (case jsFirst (priceHistory s) of
        None \<Rightarrow> False
      | Some dp \<Rightarrow> price dp = currentPrice s)"

text \<open>The categories are present and every tag is one of \<^verbatim>\<open>validCategories\<close>.\<close>

definition allValid :: "globals \<Rightarrow> string list option \<Rightarrow> bool" where
  "allValid g cs =
     (case cs of
        None \<Rightarrow> False
      | Some tags \<Rightarrow> list_all (\<lambda>c. c \<in> set (validCategories g)) tags)"

text \<open>
  Sample values. The stored record was last updated on 2026-11-02 at 01:00 UTC and costs
  4.00; the scraped product was read one hour later, on the same day in UTC and in New
  Zealand (UTC+13), and costs 4.10, the double that the literal \<^verbatim>\<open>4.1\<close> denotes. Its
  category \<^verbatim>\<open>tubs\<close>, the last section of its url, is not a valid one.
\<close>

definition exampleGlobals :: globals where
  "exampleGlobals = \<lparr>validCategories = [''frozen'', ''pantry''], tzMinutes = 780\<rparr>"

definition storedTub :: Product where
  "storedTub =
     \<lparr>id_f = ''12345'', name = ''Ice Cream Tub'', size_f = Some ''2L'',
      sourceSite = ''countdown.co.nz'', category = Some [''frozen''],
      lastChecked = DateObject (TimeValue 1793581200000),
      lastUpdated = DateObject (TimeValue 1793581200000),
      priceHistory = [Some \<lparr>date = DateObject (TimeValue 1793581200000), price = Num 4\<rparr>],
      currentPrice = Num 4, unitPrice = None, unitName = None, originalUnitQuantity = None\<rparr>"

definition scrapedTub :: Product where
  "scrapedTub =
     \<lparr>id_f = ''12345'', name = ''Ice Cream Tub'', size_f = Some ''2L'',
      sourceSite = ''countdown.co.nz'', category = Some [''tubs''],
      lastChecked = DateObject (TimeValue 1793584800000),
      lastUpdated = DateObject (TimeValue 1793584800001),
      priceHistory = [Some \<lparr>date = DateObject (TimeValue 1793584800002), price = toDouble 4.1\<rparr>],
      currentPrice = toDouble 4.1, unitPrice = None, unitName = None, originalUnitQuantity = None\<rparr>"

text \<open>The same scrape at 4.03, three cents from the stored price.\<close>

definition scrapedTubCents :: Product where
  "scrapedTubCents =
     scrapedTub\<lparr>priceHistory :=
                  [Some \<lparr>date = DateObject (TimeValue 1793584800002), price = toDouble 4.03\<rparr>],
                currentPrice := toDouble 4.03\<rparr>"

definition exampleConnection :: connection where
  "exampleConnection =
     \<lparr>products = [''12345'' \<mapsto> storedTub], selectError = None, writeError = None\<rparr>"

definition emptyConnection :: connection where
  "emptyConnection = \<lparr>products = Map.empty, selectError = None, writeError = None\<rparr>"

text \<open>A server with no row for the product that rejects the next write.\<close>

definition rejectingConnection :: connection where
  "rejectingConnection = emptyConnection\<lparr>writeError := Some DatabaseError\<rparr>"

definition exampleEntry :: ProductEntry where
  "exampleEntry =
     \<lparr>h3Id = Some ''product-12345-title'', h3Text = ''Ice Cream Tub'', sizeText = ''2L'',
      dollarText = ''4'', centText = ''10 kg''\<rparr>"

text \<open>A server that holds the record and accepts the update.\<close>

definition updatingServer :: frappe where
  "updatingServer =
     \<lparr>getReply = (\<lambda>key. Resolved True),
      putReply = (\<lambda>key p. Resolved True),
      postReply = (\<lambda>p. Rejected (Some 409))\<rparr>"

text \<open>A server that does not hold the record (404) and then fails to create it (500).\<close>

definition failingServer :: frappe where
  "failingServer =
     \<lparr>getReply = (\<lambda>key. Rejected (Some 404)),
      putReply = (\<lambda>key p. Rejected (Some 404)),
      postReply = (\<lambda>p. Rejected (Some 500))\<rparr>"

section \<open>Properties of the string functions\<close>

lemma jsSplitOn_Nil: "jsSplitOn sep [] = [[]]"
  by (subst jsSplitOn.simps) simp

lemma jsSplitOn_Cons:
  "jsSplitOn sep (c # cs) =
     (if sep \<noteq> [] \<and> jsStartsWith (c # cs) sep
      then [] # jsSplitOn sep (drop (length sep) (c # cs))
      else (case jsSplitOn sep cs of [] \<Rightarrow> [[c]] | w # ws \<Rightarrow> (c # w) # ws))"
  by (subst jsSplitOn.simps) simp

lemma jsSplitOn_nonempty: "jsSplitOn sep s \<noteq> []"
  by (cases s) (simp_all add: jsSplitOn_Nil jsSplitOn_Cons split: list.splits)

text \<open>Splitting at one character: the first section is the longest prefix without it.\<close>

lemma jsSplitOn_char:
  "jsSplitOn [x] s =
     takeWhile (\<lambda>c. c \<noteq> x) s #
       (case dropWhile (\<lambda>c. c \<noteq> x) s of [] \<Rightarrow> [] | _ # r \<Rightarrow> jsSplitOn [x] r)"
proof (induction s)
  case Nil
  show ?case by (simp add: jsSplitOn_Nil)
next
  case (Cons c cs)
  show ?case
  proof (cases "c = x")
    case True
    then show ?thesis by (simp add: jsSplitOn_Cons jsStartsWith_def)
  next
    case False
    then show ?thesis
      by (simp add: jsSplitOn_Cons jsStartsWith_def Cons.IH)
  qed
qed

lemma jsIncludes_Nil: "jsIncludes s []"
  by (cases s) (simp_all add: jsStartsWith_def)

lemma jsStartsWith_takeWhile:
  assumes "x \<notin> set p" and "jsStartsWith s p"
  shows "jsStartsWith (takeWhile (\<lambda>c. c \<noteq> x) s) p"
proof -
  from assms(2) have "s = p @ drop (length p) s"
    by (metis append_take_drop_id jsStartsWith_def)
  then obtain r where s: "s = p @ r" ..
  have "takeWhile (\<lambda>c. c \<noteq> x) (p @ r) = p @ takeWhile (\<lambda>c. c \<noteq> x) r"
    by (rule takeWhile_append2) (use assms(1) in auto)
  with s show ?thesis by (simp add: jsStartsWith_def)
qed

text \<open>
  A pattern without the separator that occurs in a string occurs before the first
  separator or after it.
\<close>

lemma jsIncludes_takeWhile_or_rest:
  assumes "x \<notin> set p"
  shows "jsIncludes s p \<Longrightarrow>
    jsIncludes (takeWhile (\<lambda>c. c \<noteq> x) s) p \<or>
    (\<exists>r. dropWhile (\<lambda>c. c \<noteq> x) s = x # r \<and> jsIncludes r p)"
proof (induction s)
  case Nil
  then show ?case by simp
next
  case (Cons c cs)
  show ?case
  proof (cases "jsStartsWith (c # cs) p")
    case True
    from jsStartsWith_takeWhile[OF assms True]
    have sw: "jsStartsWith (takeWhile (\<lambda>c. c \<noteq> x) (c # cs)) p" .
    show ?thesis
    proof (cases "takeWhile (\<lambda>c. c \<noteq> x) (c # cs)")
      case Nil
      with sw have "p = []" by (simp add: jsStartsWith_def)
      then show ?thesis by (simp add: jsIncludes_Nil)
    next
      case (Cons a as)
      with sw show ?thesis by simp
    qed
  next
    case False
    with Cons.prems have inc: "jsIncludes cs p" by simp
    show ?thesis
    proof (cases "c = x")
      case True
      with inc show ?thesis by simp
    next
      case False
      from Cons.IH[OF inc] False show ?thesis by auto
    qed
  qed
qed

lemma jsIncludes_split_char:
  assumes "x \<notin> set p"
  shows "jsIncludes s p \<Longrightarrow> \<exists>w \<in> set (jsSplitOn [x] s). jsIncludes w p"
proof (induction s rule: length_induct)
  case (1 s)
  from jsIncludes_takeWhile_or_rest[OF assms 1(2)]
  consider (a) "jsIncludes (takeWhile (\<lambda>c. c \<noteq> x) s) p"
    | (b) r where "dropWhile (\<lambda>c. c \<noteq> x) s = x # r" "jsIncludes r p"
    by blast
  then show ?case
  proof cases
    case a
    then show ?thesis by (subst jsSplitOn_char) simp
  next
    case b
    have "length (dropWhile (\<lambda>c. c \<noteq> x) s) \<le> length s"
      by (rule length_dropWhile_le)
    with b(1) have "length r < length s" by simp
    with 1(1) b(2) have "\<exists>w \<in> set (jsSplitOn [x] r). jsIncludes w p" by blast
    with b(1) show ?thesis by (subst jsSplitOn_char) simp
  qed
qed

section \<open>parseAndCategoriseURL\<close>

lemma processSection_url:
  "jsEndsWith (url cu) ''?page=1&size=48&inStockProductsOnly=true'' \<or>
     jsIncludes sec ''countdown.co.nz'' \<Longrightarrow>
   jsEndsWith (url (processSection line cu sec)) ''?page=1&size=48&inStockProductsOnly=true''"
  by (auto simp: processSection_def jsEndsWith_def Let_def)

lemma foldl_processSection_url:
  "jsEndsWith (url cu) ''?page=1&size=48&inStockProductsOnly=true'' \<or>
     (\<exists>sec \<in> set sections. jsIncludes sec ''countdown.co.nz'') \<Longrightarrow>
   jsEndsWith (url (foldl (processSection line) cu sections))
     ''?page=1&size=48&inStockProductsOnly=true''"
proof (induction sections arbitrary: cu)
  case Nil
  then show ?case by simp
next
  case (Cons sec sections)
  show ?case
  proof (cases "jsEndsWith (url cu) ''?page=1&size=48&inStockProductsOnly=true'' \<or>
     jsIncludes sec ''countdown.co.nz''")
    case True
    from processSection_url[OF True] show ?thesis
      by (simp add: Cons.IH)
  next
    case False
    with Cons.prems have "\<exists>sec \<in> set sections. jsIncludes sec ''countdown.co.nz''"
      by auto
    then show ?thesis by (simp add: Cons.IH)
  qed
qed

lemma foldl_processSection_categories:
  "categories cu = [] \<Longrightarrow>
   \<forall>sec \<in> set sections. \<not> jsStartsWith sec ''categories='' \<Longrightarrow>
   categories (foldl (processSection line) cu sections) = []"
proof (induction sections arbitrary: cu)
  case Nil
  then show ?case by simp
next
  case (Cons sec sections)
  from Cons.prems have "categories (processSection line cu sec) = []"
    by (simp add: processSection_def Let_def)
  with Cons.prems show ?case by (simp add: Cons.IH)
qed

lemma includes_section:
  assumes "jsIncludes line ''countdown.co.nz''"
  shows "\<exists>sec \<in> set (jsSplit line '' ''). jsIncludes sec ''countdown.co.nz''"
proof -
  have "CHR '' '' \<notin> set ''countdown.co.nz''" by simp
  from jsIncludes_split_char[OF this assms] show ?thesis
    by (simp add: jsSplit_def)
qed

text \<open>
  C10. \<^verbatim>\<open>parseAndCategoriseURL\<close> returns \<^verbatim>\<open>undefined\<close> exactly when the line does not
  contain \<^verbatim>\<open>countdown.co.nz\<close>. Every defined result has a non-empty list of categories
  and a url that ends with \<^verbatim>\<open>?page=1&size=48&inStockProductsOnly=true\<close>; when no section
  of the line starts with \<^verbatim>\<open>categories=\<close>, the one category is the last slash section of
  the url before its \<^verbatim>\<open>?\<close>.
\<close>

theorem parseAndCategoriseURL_defined:
  "(parseAndCategoriseURL line = None \<longleftrightarrow> \<not> jsIncludes line ''countdown.co.nz'') \<and>
   (\<forall>r. parseAndCategoriseURL line = Some r \<longrightarrow>
      categories r \<noteq> [] \<and>
      jsEndsWith (url r) ''?page=1&size=48&inStockProductsOnly=true'' \<and>
      ((\<forall>sec \<in> set (jsSplit line '' ''). \<not> jsStartsWith sec ''categories='') \<longrightarrow>
         categories r = [last (jsSplit (hd (jsSplit (url r) ''?'')) ''/'')]))"
proof (cases "jsIncludes line ''countdown.co.nz''")
  case False
  then show ?thesis by (simp add: parseAndCategoriseURL_def)
next
  case inc: True
  define cu where
    "cu = foldl (processSection line) \<lparr>url = [], categories = []\<rparr> (jsSplit line '' '')"
  from includes_section[OF inc]
  have u: "jsEndsWith (url cu) ''?page=1&size=48&inStockProductsOnly=true''"
    unfolding cu_def by (intro foldl_processSection_url) blast
  have c: "(\<forall>sec \<in> set (jsSplit line '' ''). \<not> jsStartsWith sec ''categories='')
      \<Longrightarrow> categories cu = []"
    unfolding cu_def by (rule foldl_processSection_categories) simp_all
  have r: "parseAndCategoriseURL line =
      (if categories cu = []
       then Some (cu\<lparr>categories := [last (jsSplit (hd (jsSplit (url cu) ''?'')) ''/'')]\<rparr>)
       else Some cu)"
    using inc by (simp add: parseAndCategoriseURL_def cu_def Let_def)
  show ?thesis
  proof (cases "categories cu = []")
    case True
    with r u inc show ?thesis by simp
  next
    case False
    with r u c inc show ?thesis by auto
  qed
qed

theorem parseAndCategoriseURL_defined_witness:
  "parseAndCategoriseURL ''countdown.co.nz/shop/browse/frozen/ice-cream-sorbet/tubs'' =
     Some \<lparr>url = ''https://countdown.co.nz/shop/browse/frozen/ice-cream-sorbet/tubs?page=1&size=48&inStockProductsOnly=true'',
           categories = [''tubs'']\<rparr> \<and>
   list_all (\<lambda>sec. \<not> jsStartsWith sec ''categories='')
     (jsSplit ''countdown.co.nz/shop/browse/frozen/ice-cream-sorbet/tubs'' '' '') \<and>
   jsEndsWith ''https://countdown.co.nz/shop/browse/frozen/ice-cream-sorbet/tubs?page=1&size=48&inStockProductsOnly=true''
     ''?page=1&size=48&inStockProductsOnly=true'' \<and>
   [''tubs''] = [last (jsSplit (hd (jsSplit ''https://countdown.co.nz/shop/browse/frozen/ice-cream-sorbet/tubs?page=1&size=48&inStockProductsOnly=true'' ''?'')) ''/'')]"
proof -
  let ?line = "''countdown.co.nz/shop/browse/frozen/ice-cream-sorbet/tubs''"
  let ?r = "\<lparr>url = ''https://countdown.co.nz/shop/browse/frozen/ice-cream-sorbet/tubs?page=1&size=48&inStockProductsOnly=true'',
           categories = [''tubs'']\<rparr>"
  have e: "parseAndCategoriseURL ?line = Some ?r"
    by code_simp
  have s: "list_all (\<lambda>sec. \<not> jsStartsWith sec ''categories='') (jsSplit ?line '' '')"
    by code_simp
  then have s': "\<forall>sec \<in> set (jsSplit ?line '' ''). \<not> jsStartsWith sec ''categories=''"
    unfolding list_all_iff .
  from parseAndCategoriseURL_defined [of ?line] e s'
  have "jsEndsWith (url ?r) ''?page=1&size=48&inStockProductsOnly=true'' \<and>
        categories ?r = [last (jsSplit (hd (jsSplit (url ?r) ''?'')) ''/'')]"
    by blast
  then have "jsEndsWith ''https://countdown.co.nz/shop/browse/frozen/ice-cream-sorbet/tubs?page=1&size=48&inStockProductsOnly=true''
     ''?page=1&size=48&inStockProductsOnly=true'' \<and>
   [''tubs''] = [last (jsSplit (hd (jsSplit ''https://countdown.co.nz/shop/browse/frozen/ice-cream-sorbet/tubs?page=1&size=48&inStockProductsOnly=true'' ''?'')) ''/'')]"
    by (simp only: CategorisedUrl.simps)
  with e s show ?thesis by blast
qed

section \<open>Doubles\<close>

lemma twoTo_pos: "0 < twoTo k"
  by (simp add: twoTo_def)

lemma ulp_pos: "0 < ulp x"
  by (simp add: ulp_def twoTo_pos)

lemma roundTiesToEven_nonneg: "0 \<le> r \<Longrightarrow> 0 \<le> roundTiesToEven r"
  by (simp add: roundTiesToEven_def Let_def)

lemma roundDouble_nonneg: "0 \<le> x \<Longrightarrow> 0 \<le> roundDouble x"
  using ulp_pos[of x] roundTiesToEven_nonneg[of "\<bar>x\<bar> / ulp x"]
  by (simp add: roundDouble_def)

lemma toDouble_zero: "toDouble 0 = Num 0"
  by (simp add: toDouble_def roundDouble_def)

lemma jsGt_zero_toDouble: "0 \<le> x \<Longrightarrow> \<not> jsGt (Num 0) (toDouble x)"
  using roundDouble_nonneg[of x] by (simp add: toDouble_def Let_def)

text \<open>The difference of a number and itself never exceeds a threshold that is not negative.\<close>

lemma jsGt_self: "0 \<le> x \<Longrightarrow> \<not> jsGt (jsAbs (jsSub a a)) (toDouble x)"
  by (cases a) (simp_all add: toDouble_zero jsGt_zero_toDouble)

lemmas double_defs =
  toDouble_def roundDouble_def ulp_def floorLog2_def twoTo_def roundTiesToEven_def
  bitLength.simps Let_def

text \<open>
  The doubles of the literals \<^verbatim>\<open>0.05\<close>, \<^verbatim>\<open>4.1\<close>, \<^verbatim>\<open>4.03\<close> and \<^verbatim>\<open>1.05\<close>, and
  the differences the code computes from them: \<^verbatim>\<open>4 - 4.1\<close> is
  \<^verbatim>\<open>-0.09999999999999964\<close>, \<^verbatim>\<open>4 - 4.03\<close> is \<^verbatim>\<open>-0.03000000000000025\<close> and
  \<^verbatim>\<open>1 - 1.05\<close> is \<^verbatim>\<open>-0.050000000000000044\<close>.
\<close>

lemma toDouble_threshold: "toDouble (1 / 20) = Num (3602879701896397 / 72057594037927936)"
  by (simp add: double_defs)

lemma toDouble_sample: "toDouble (41 / 10) = Num (2308094809027379 / 562949953421312)"
  by (simp add: double_defs)

lemma toDouble_cents: "toDouble (403 / 100) = Num (4537376624575775 / 1125899906842624)"
  by (simp add: double_defs)

lemma toDouble_105: "toDouble (21 / 20) = Num (4728779608739021 / 4503599627370496)"
  by (simp add: double_defs)

lemma sample_difference:
  "jsSub (Num 4) (Num (2308094809027379 / 562949953421312)) =
     Num (- (56294995342131 / 562949953421312))"
  by (simp add: double_defs)

lemma cents_difference:
  "jsSub (Num 4) (Num (4537376624575775 / 1125899906842624)) =
     Num (- (33776997205279 / 1125899906842624))"
  by (simp add: double_defs)

lemma difference_105:
  "jsSub (Num 1) (Num (4728779608739021 / 4503599627370496)) =
     Num (- (225179981368525 / 4503599627370496))"
  by (simp add: double_defs)

lemmas sample_numbers =
  toDouble_threshold toDouble_sample toDouble_cents sample_difference cents_difference

lemma sample_exceeds: "jsGt (jsAbs (jsSub (Num 4) (toDouble 4.1))) (toDouble 0.05)"
  by (simp add: sample_numbers del: jsSub.simps)

lemma cents_within: "\<not> jsGt (jsAbs (jsSub (Num 4) (toDouble 4.03))) (toDouble 0.05)"
  by (simp add: sample_numbers del: jsSub.simps)

text \<open>
  Five cents can exceed the threshold: the difference of the doubles \<^verbatim>\<open>1\<close> and
  \<^verbatim>\<open>1.05\<close> is above the double \<^verbatim>\<open>0.05\<close>.
\<close>

lemma five_cents_exceed: "jsGt (jsAbs (jsSub (Num 1) (toDouble 1.05))) (toDouble 0.05)"
  by (simp add: toDouble_105 toDouble_threshold difference_105 del: jsSub.simps)

section \<open>Date strings\<close>

lemma digitChar_isDigit: "isDigit (digitChar d)"
proof -
  have "d mod 10 < length ''0123456789''" by simp
  then have "''0123456789'' ! (d mod 10) \<in> set ''0123456789''" by (rule nth_mem)
  then show ?thesis by (simp only: digitChar_def isDigit_def)
qed

lemma showNat_digits: "showNat n \<noteq> [] \<and> list_all isDigit (showNat n)"
proof (induction n rule: showNat.induct)
  case (1 n)
  show ?case
  proof (cases "n < 10")
    case True
    then show ?thesis by (subst (1 2) showNat.simps) (simp add: digitChar_isDigit)
  next
    case False
    with 1 show ?thesis by (subst (1 2) showNat.simps) (simp add: digitChar_isDigit)
  qed
qed

lemma padZero_hd: "\<exists>c cs. padZero w n = c # cs \<and> isDigit c"
proof (cases "w - length (showNat n)")
  case 0
  from showNat_digits[of n] obtain c cs where "showNat n = c # cs" "isDigit c"
    by (cases "showNat n") auto
  with 0 show ?thesis by (simp add: padZero_def)
next
  case (Suc k)
  then show ?thesis by (simp add: padZero_def isDigit_def)
qed

lemma isoYear_hd: "\<exists>c cs. isoYear y = c # cs \<and> c \<in> set ''0123456789+-''"
proof -
  from padZero_hd[of 4 "nat y"] obtain c cs where "padZero 4 (nat y) = c # cs" "isDigit c"
    by blast
  then show ?thesis by (auto simp: isoYear_def isDigit_def)
qed

text \<open>An ISO string starts with a digit or a sign.\<close>

lemma dateToISOString_hd:
  assumes "dateToISOString d = Inr str"
  shows "\<exists>c cs. str = c # cs \<and> c \<in> set ''0123456789+-''"
proof (cases d)
  case (TimeValue t)
  from isoYear_hd[of "YearFromTime t"] obtain c cs where
    y: "isoYear (YearFromTime t) = c # cs" and c: "c \<in> set ''0123456789+-''" by blast
  from assms have "\<exists>rest. str = isoYear (YearFromTime t) @ rest"
    unfolding TimeValue dateToISOString_def jsdate.case sum.inject by blast
  then obtain rest where "str = isoYear (YearFromTime t) @ rest" ..
  with y have "str = c # (cs @ rest)" by simp
  with c show ?thesis by blast
next
  case InvalidDate
  with assms show ?thesis by (simp add: dateToISOString_def)
qed

lemma weekDayName_hd: "\<exists>c cs. weekDayNames ! WeekDay t = c # cs \<and> c \<in> set ''SMTWF''"
proof -
  have "WeekDay t < 7" by (simp add: WeekDay_def)
  then consider "WeekDay t = 0" | "WeekDay t = 1" | "WeekDay t = 2" | "WeekDay t = 3"
    | "WeekDay t = 4" | "WeekDay t = 5" | "WeekDay t = 6"
    by linarith
  then show ?thesis by cases (simp_all add: weekDayNames_def)
qed

text \<open>The string of a \<^verbatim>\<open>Date\<close> starts with the name of a week day, or is \<^verbatim>\<open>Invalid Date\<close>.\<close>

lemma dateToString_hd: "\<exists>c cs. dateToString tz d = c # cs \<and> c \<in> set ''SMTWFI''"
proof (cases d)
  case (TimeValue utc)
  from weekDayName_hd[of "utc + tz * 60000"] obtain c cs where
    w: "weekDayNames ! WeekDay (utc + tz * 60000) = c # cs" and c: "c \<in> set ''SMTWF''" by blast
  have "\<exists>rest. dateToString tz d = weekDayNames ! WeekDay (utc + tz * 60000) @ rest"
    unfolding TimeValue dateToString_def jsdate.case Let_def by blast
  then obtain rest where "dateToString tz d = weekDayNames ! WeekDay (utc + tz * 60000) @ rest" ..
  with w have "dateToString tz d = c # (cs @ rest)" by simp
  moreover from c have "c \<in> set ''SMTWFI''" by auto
  ultimately show ?thesis by blast
next
  case InvalidDate
  then show ?thesis by (simp add: dateToString_def)
qed

text \<open>
  So the first ten characters of \<^verbatim>\<open>toString()\<close> of a \<^verbatim>\<open>Date\<close> are never the first
  ten characters of an ISO string.
\<close>

lemma dateObject_day_differs:
  assumes "dateToISOString d2 = Inr str"
  shows "jsSlice (dateToString tz d1) 0 10 \<noteq> jsSlice str 0 10"
proof -
  from dateToISOString_hd[OF assms] obtain c cs where
    s: "str = c # cs" "c \<in> set ''0123456789+-''" by blast
  from dateToString_hd[of tz d1] obtain c' cs' where
    s': "dateToString tz d1 = c' # cs'" "c' \<in> set ''SMTWFI''" by blast
  from s(2) s'(2) have "c \<noteq> c'" by auto
  with s(1) s'(1) show ?thesis by (simp add: jsSlice_def)
qed

lemma fieldToISOString_DateObject:
  "fieldToISOString f = Inr str \<Longrightarrow> \<exists>t. f = DateObject (TimeValue t)"
  by (auto simp: fieldToISOString_def dateToISOString_def split: datefield.splits jsdate.splits)

lemma fieldToISOString_TimeValue: "\<exists>str. fieldToISOString (DateObject (TimeValue t)) = Inr str"
  by (simp add: fieldToISOString_def dateToISOString_def)

text \<open>The days of the sample records, in UTC and in local time.\<close>

lemma stored_utc_day:
  "map_sum id (\<lambda>str. jsSlice str 0 10)
     (fieldToISOString (DateObject (TimeValue 1793581200000))) = Inr ''2026-11-02''"
  by code_simp

lemma scraped_utc_day:
  "map_sum id (\<lambda>str. jsSlice str 0 10)
     (fieldToISOString (DateObject (TimeValue 1793584800001))) = Inr ''2026-11-02''"
  by code_simp

lemma storedTub_day:
  "map_sum id (\<lambda>str. jsSlice str 0 10) (fieldToISOString (lastUpdated storedTub)) =
     Inr ''2026-11-02''"
proof -
  have "lastUpdated storedTub = DateObject (TimeValue 1793581200000)"
    by (simp add: storedTub_def)
  with stored_utc_day show ?thesis by (simp only:)
qed

lemma scrapedTub_day:
  "map_sum id (\<lambda>str. jsSlice str 0 10) (fieldToISOString (lastUpdated scrapedTub)) =
     Inr ''2026-11-02''"
proof -
  have "lastUpdated scrapedTub = DateObject (TimeValue 1793584800001)"
    by (simp add: scrapedTub_def)
  with scraped_utc_day show ?thesis by (simp only:)
qed

lemma storedTub_local_day:
  "jsSlice (dateToString 780 (TimeValue 1793581200000)) 0 15 = ''Mon Nov 02 2026''"
  by code_simp

lemma scrapedTub_local_day:
  "jsSlice (dateToString 780 (TimeValue 1793584800001)) 0 15 = ''Mon Nov 02 2026''"
  by code_simp

section \<open>playwrightElementToProduct\<close>

lemma playwrightElementToProduct_history:
  assumes "playwrightElementToProduct startCase toNumber clock element cats = Some s"
  shows "validateProduct s \<and>
         priceHistory s = [Some \<lparr>date = DateObject (snd (snd clock)), price = currentPrice s\<rparr>]"
  using assms
  by (auto simp: playwrightElementToProduct_def Let_def split: option.splits if_splits prod.splits)

lemma exampleEntry_product:
  "playwrightElementToProduct (\<lambda>text. text) (\<lambda>digits. toDouble 4.1)
     (TimeValue 1793584800000, TimeValue 1793584800001, TimeValue 1793584800002)
     exampleEntry [''tubs''] = Some scrapedTub"
  by (simp add: playwrightElementToProduct_def exampleEntry_def scrapedTub_def validateProduct_def
      isDigit_def Let_def toDouble_sample)

lemma playwrightElementToProduct_observation:
  assumes "playwrightElementToProduct startCase toNumber clock element cats = Some s"
  shows "scrapedObservation s"
  using playwrightElementToProduct_history[OF assms]
  by (simp add: scrapedObservation_def jsFirst_def)

section \<open>buildUpdatedProduct\<close>

text \<open>The three results of \<^verbatim>\<open>buildUpdatedProduct\<close>, when it returns.\<close>

lemma buildUpdatedProduct_cases:
  assumes "buildUpdatedProduct g s e = Inr (d, p)"
  obtains
    (PriceChanged) "d = PriceChanged"
      "p = s\<lparr>priceHistory := priceHistory e @ [jsFirst (priceHistory s)]\<rparr>"
      "jsGt (jsAbs (jsSub (currentPrice e) (currentPrice s))) (toDouble 0.05)"
  | (InfoChanged) tags where "d = InfoChanged"
      "p = s\<lparr>priceHistory := priceHistory e, lastUpdated := lastUpdated e\<rparr>"
      "category e = Some tags" "\<not> list_all (\<lambda>c. c \<in> set (validCategories g)) tags"
      "category s \<noteq> None"
  | (AlreadyUpToDate) tags where "d = AlreadyUpToDate"
      "p = e\<lparr>lastChecked := lastChecked s\<rparr>"
      "category e = Some tags" "list_all (\<lambda>c. c \<in> set (validCategories g)) tags"
  using assms
  by (auto simp: buildUpdatedProduct_def Let_def split: sum.splits if_splits option.splits)

lemma buildUpdatedProduct_PriceChanged:
  assumes "fieldToString (tzMinutes g) (lastUpdated e) = Inr a"
    and "fieldToISOString (lastUpdated s) = Inr b"
    and "jsGt (jsAbs (jsSub (currentPrice e) (currentPrice s))) (toDouble 0.05)"
    and "jsSlice a 0 10 \<noteq> jsSlice b 0 10"
  shows "buildUpdatedProduct g s e =
    Inr (PriceChanged, s\<lparr>priceHistory := priceHistory e @ [jsFirst (priceHistory s)]\<rparr>)"
  using assms by (simp add: buildUpdatedProduct_def Let_def)

lemma buildUpdatedProduct_otherwise:
  assumes "fieldToString (tzMinutes g) (lastUpdated e) = Inr a"
    and "fieldToISOString (lastUpdated s) = Inr b"
    and "\<not> (jsGt (jsAbs (jsSub (currentPrice e) (currentPrice s))) (toDouble 0.05) \<and>
            jsSlice a 0 10 \<noteq> jsSlice b 0 10)"
  shows "buildUpdatedProduct g s e =
    (case category e of
       None \<Rightarrow> Inl TypeError
     | Some tags \<Rightarrow>
         if \<not> list_all (\<lambda>c. c \<in> set (validCategories g)) tags then
           (case category s of
              None \<Rightarrow> Inl TypeError
            | Some x \<Rightarrow> Inr (InfoChanged, s\<lparr>priceHistory := priceHistory e,
                                            lastUpdated := lastUpdated e\<rparr>))
         else Inr (AlreadyUpToDate, e\<lparr>lastChecked := lastChecked s\<rparr>))"
proof -
  from assms(3) have c: "(jsGt (jsAbs (jsSub (currentPrice e) (currentPrice s))) (toDouble 0.05) \<and>
            jsSlice a 0 10 \<noteq> jsSlice b 0 10) = False"
    by (simp only: simp_thms)
  show ?thesis
    by (simp only: buildUpdatedProduct_def assms(1,2) sum.case Let_def c if_False)
qed

text \<open>
  The day gate on a stored \<^verbatim>\<open>Date\<close> object: the two day strings always differ, so a
  price difference above 0.05 is a price change on any day.
\<close>

lemma buildUpdatedProduct_DateObject:
  assumes "lastUpdated e = DateObject d"
    and "lastUpdated s = DateObject (TimeValue t)"
    and "jsGt (jsAbs (jsSub (currentPrice e) (currentPrice s))) (toDouble 0.05)"
  shows "buildUpdatedProduct g s e =
    Inr (PriceChanged, s\<lparr>priceHistory := priceHistory e @ [jsFirst (priceHistory s)]\<rparr>)"
proof -
  from fieldToISOString_TimeValue[of t] assms(2) obtain b where
    b: "fieldToISOString (lastUpdated s) = Inr b" by auto
  with assms(2) have "dateToISOString (TimeValue t) = Inr b"
    by (simp add: fieldToISOString_def)
  from dateObject_day_differs[OF this]
  have "jsSlice (dateToString (tzMinutes g) d) 0 10 \<noteq> jsSlice b 0 10" .
  moreover from assms(1) have
    "fieldToString (tzMinutes g) (lastUpdated e) = Inr (dateToString (tzMinutes g) d)"
    by (simp add: fieldToString_def)
  ultimately show ?thesis using b assms(3)
    by (intro buildUpdatedProduct_PriceChanged)
qed

text \<open>
  The day gate on a stored string: the decision is \<^verbatim>\<open>PriceChanged\<close> exactly when the
  difference exceeds 0.05 and the first ten characters of the string are not the UTC day
  of the scrape.
\<close>

lemma buildUpdatedProduct_DateString:
  assumes "lastUpdated e = DateString a"
    and "buildUpdatedProduct g s e = Inr (d, p)"
  shows "\<exists>b. fieldToISOString (lastUpdated s) = Inr b \<and>
    (d = PriceChanged \<longleftrightarrow>
       jsGt (jsAbs (jsSub (currentPrice e) (currentPrice s))) (toDouble 0.05) \<and>
       jsSlice a 0 10 \<noteq> jsSlice b 0 10)"
proof -
  from assms(2) obtain b where b: "fieldToISOString (lastUpdated s) = Inr b"
    by (auto simp: buildUpdatedProduct_def split: sum.splits)
  from assms(1) have a: "fieldToString (tzMinutes g) (lastUpdated e) = Inr a"
    by (simp add: fieldToString_def)
  show ?thesis
  proof (cases "jsGt (jsAbs (jsSub (currentPrice e) (currentPrice s))) (toDouble 0.05) \<and>
       jsSlice a 0 10 \<noteq> jsSlice b 0 10")
    case True
    with buildUpdatedProduct_PriceChanged[OF a b] assms(2) b show ?thesis by auto
  next
    case False
    from buildUpdatedProduct_otherwise[OF a b False] assms(2) have "d \<noteq> PriceChanged"
      by (auto split: option.splits if_splits)
    with False b show ?thesis by blast
  qed
qed

text \<open>The sample scrape against the sample record, and against its own result.\<close>

lemma example_first_call:
  "buildUpdatedProduct exampleGlobals scrapedTub storedTub =
     Inr (PriceChanged,
          scrapedTub\<lparr>priceHistory := priceHistory storedTub @ priceHistory scrapedTub\<rparr>)"
proof -
  have "buildUpdatedProduct exampleGlobals scrapedTub storedTub =
     Inr (PriceChanged,
          scrapedTub\<lparr>priceHistory :=
            priceHistory storedTub @ [jsFirst (priceHistory scrapedTub)]\<rparr>)"
    by (rule buildUpdatedProduct_DateObject
          [where t = 1793584800001 and d = "TimeValue 1793581200000"])
       (simp_all add: storedTub_def scrapedTub_def sample_numbers del: jsSub.simps)
  moreover have "[jsFirst (priceHistory scrapedTub)] = priceHistory scrapedTub"
    by (simp add: scrapedTub_def jsFirst_def)
  ultimately show ?thesis by simp
qed

lemma example_strings:
  assumes "lastUpdated s = DateObject (TimeValue t)" and "lastUpdated e = DateObject (TimeValue u)"
  obtains a b where "fieldToString (tzMinutes g) (lastUpdated e) = Inr a"
    and "fieldToISOString (lastUpdated s) = Inr b"
  using assms by (simp add: fieldToString_def fieldToISOString_def dateToISOString_def)

text \<open>
  C2. The claim: \<^verbatim>\<open>buildUpdatedProduct\<close> returns \<^verbatim>\<open>PriceChanged\<close> only if the price
  difference exceeds 0.05 and the calendar days of the two \<open>lastUpdated\<close> differ. The
  code at a stored record whose \<open>lastUpdated\<close> is a \<^verbatim>\<open>Date\<close> object of the same day,
  2026-11-02 in UTC and in local time, with prices 4.00 and 4.10: the decision is
  \<^verbatim>\<open>PriceChanged\<close>.
\<close>

theorem priceChanged_on_same_day:
  "buildUpdatedProduct exampleGlobals scrapedTub storedTub =
     Inr (PriceChanged,
          scrapedTub\<lparr>priceHistory := priceHistory storedTub @ priceHistory scrapedTub\<rparr>) \<and>
   map_sum id (\<lambda>str. jsSlice str 0 10) (fieldToISOString (lastUpdated storedTub)) =
     Inr ''2026-11-02'' \<and>
   map_sum id (\<lambda>str. jsSlice str 0 10) (fieldToISOString (lastUpdated scrapedTub)) =
     Inr ''2026-11-02'' \<and>
   lastUpdated storedTub = DateObject (TimeValue 1793581200000) \<and>
   jsSlice (dateToString 780 (TimeValue 1793581200000)) 0 15 = ''Mon Nov 02 2026'' \<and>
   lastUpdated scrapedTub = DateObject (TimeValue 1793584800001) \<and>
   jsSlice (dateToString 780 (TimeValue 1793584800001)) 0 15 = ''Mon Nov 02 2026''"
proof -
  have "lastUpdated storedTub = DateObject (TimeValue 1793581200000)"
    by (simp add: storedTub_def)
  moreover have "lastUpdated scrapedTub = DateObject (TimeValue 1793584800001)"
    by (simp add: scrapedTub_def)
  ultimately show ?thesis
    using example_first_call storedTub_day scrapedTub_day storedTub_local_day
      scrapedTub_local_day
    by blast
qed

lemma example_cents_call:
  "buildUpdatedProduct exampleGlobals scrapedTubCents
       (storedTub\<lparr>category := Some [''ice-cream'']\<rparr>) =
     Inr (InfoChanged,
          scrapedTubCents\<lparr>priceHistory := priceHistory storedTub,
                          lastUpdated := lastUpdated storedTub\<rparr>)"
proof -
  let ?e = "storedTub\<lparr>category := Some [''ice-cream'']\<rparr>"
  obtain a b where a: "fieldToString (tzMinutes exampleGlobals) (lastUpdated ?e) = Inr a"
    and b: "fieldToISOString (lastUpdated scrapedTubCents) = Inr b"
    by (rule example_strings[of scrapedTubCents 1793584800001 ?e 1793581200000 exampleGlobals])
       (simp_all add: scrapedTubCents_def scrapedTub_def storedTub_def)
  have c: "\<not> (jsGt (jsAbs (jsSub (currentPrice ?e) (currentPrice scrapedTubCents))) (toDouble 0.05) \<and>
       jsSlice a 0 10 \<noteq> jsSlice b 0 10)"
    by (simp add: storedTub_def scrapedTubCents_def sample_numbers del: jsSub.simps)
  from buildUpdatedProduct_otherwise[OF a b c] show ?thesis
    by (simp add: exampleGlobals_def scrapedTubCents_def scrapedTub_def)
qed

lemma example_invariants:
  "priceInvariant storedTub"
  "priceInvariant (storedTub\<lparr>category := Some [''ice-cream'']\<rparr>)"
  "scrapedObservation scrapedTub"
  "scrapedObservation scrapedTubCents"
  by (simp_all add: priceInvariant_def scrapedObservation_def storedTub_def scrapedTub_def
      scrapedTubCents_def jsFirst_def)

text \<open>
  C1, the claim refuted: the stored record satisfies the invariant and the scraped product
  is as the scraper builds it, three cents dearer; the stored category is not a valid one.
  The decision is \<^verbatim>\<open>InfoChanged\<close>, and the product returned has the scraped price 4.03
  with the stored history, whose last price is 4.00.
\<close>

theorem infoChanged_breaks_priceInvariant:
  "buildUpdatedProduct exampleGlobals scrapedTubCents
       (storedTub\<lparr>category := Some [''ice-cream'']\<rparr>) =
     Inr (InfoChanged,
          scrapedTubCents\<lparr>priceHistory := priceHistory storedTub,
                          lastUpdated := lastUpdated storedTub\<rparr>) \<and>
   priceInvariant (storedTub\<lparr>category := Some [''ice-cream'']\<rparr>) \<and>
   scrapedObservation scrapedTubCents \<and>
   \<not> priceInvariant (scrapedTubCents\<lparr>priceHistory := priceHistory storedTub,
                                     lastUpdated := lastUpdated storedTub\<rparr>)"
proof -
  have "\<not> priceInvariant (scrapedTubCents\<lparr>priceHistory := priceHistory storedTub,
                                     lastUpdated := lastUpdated storedTub\<rparr>)"
    by (simp add: priceInvariant_def storedTub_def scrapedTubCents_def toDouble_cents)
  with example_cents_call example_invariants(2,4) show ?thesis by blast
qed

text \<open>
  C1, amended. When the stored record satisfies the invariant and the first entry of the
  scraped history carries the scraped price, the product returned by the
  \<^verbatim>\<open>PriceChanged\<close> and \<^verbatim>\<open>AlreadyUpToDate\<close> branches satisfies the invariant. The
  \<^verbatim>\<open>InfoChanged\<close> branch returns the scraped price with the stored history: its product
  satisfies the invariant exactly when the scraped price is the stored price.
\<close>

theorem priceInvariant_by_branch:
  assumes "buildUpdatedProduct g s e = Inr (d, p)"
    and "priceInvariant e" and "scrapedObservation s"
  shows "(d \<noteq> InfoChanged \<longrightarrow> priceInvariant p) \<and>
         (d = InfoChanged \<longrightarrow> (priceInvariant p \<longleftrightarrow> currentPrice s = currentPrice e))"
  using assms(1)
proof (cases rule: buildUpdatedProduct_cases)
  case PriceChanged
  with assms(3) show ?thesis
    by (auto simp: priceInvariant_def scrapedObservation_def split: option.splits list.splits)
next
  case (InfoChanged tags)
  with assms(2) show ?thesis
    by (auto simp: priceInvariant_def split: option.splits list.splits)
next
  case (AlreadyUpToDate tags)
  with assms(2) show ?thesis
    by (auto simp: priceInvariant_def split: option.splits list.splits)
qed

theorem priceInvariant_by_branch_witness:
  "buildUpdatedProduct exampleGlobals scrapedTub storedTub =
     Inr (PriceChanged,
          scrapedTub\<lparr>priceHistory := priceHistory storedTub @ priceHistory scrapedTub\<rparr>) \<and>
   priceInvariant storedTub \<and> scrapedObservation scrapedTub \<and>
   priceInvariant
     (scrapedTub\<lparr>priceHistory := priceHistory storedTub @ priceHistory scrapedTub\<rparr>) \<and>
   buildUpdatedProduct exampleGlobals scrapedTubCents
       (storedTub\<lparr>category := Some [''ice-cream'']\<rparr>) =
     Inr (InfoChanged,
          scrapedTubCents\<lparr>priceHistory := priceHistory storedTub,
                          lastUpdated := lastUpdated storedTub\<rparr>) \<and>
   priceInvariant (storedTub\<lparr>category := Some [''ice-cream'']\<rparr>) \<and>
   scrapedObservation scrapedTubCents \<and>
   priceInvariant (scrapedTubCents\<lparr>priceHistory := priceHistory storedTub,
                                   lastUpdated := lastUpdated storedTub\<rparr>) =
     (currentPrice scrapedTubCents = currentPrice (storedTub\<lparr>category := Some [''ice-cream'']\<rparr>))"
proof -
  from priceInvariant_by_branch[OF example_first_call example_invariants(1,3)]
  have "priceInvariant
     (scrapedTub\<lparr>priceHistory := priceHistory storedTub @ priceHistory scrapedTub\<rparr>)"
    by simp
  moreover from priceInvariant_by_branch[OF example_cents_call example_invariants(2,4)]
  have "priceInvariant (scrapedTubCents\<lparr>priceHistory := priceHistory storedTub,
                                   lastUpdated := lastUpdated storedTub\<rparr>) =
     (currentPrice scrapedTubCents = currentPrice (storedTub\<lparr>category := Some [''ice-cream'']\<rparr>))"
    by simp
  ultimately show ?thesis
    using example_first_call example_cents_call example_invariants by blast
qed

text \<open>
  C4. When the decision is \<^verbatim>\<open>PriceChanged\<close>, the returned history is one longer than
  the stored history, starts with the stored history, and ends with the scraped price
  observation \<^verbatim>\<open>scrapedProduct.priceHistory[0]\<close>; the returned price is the scraped
  price. For a product as \<^verbatim>\<open>playwrightElementToProduct\<close> builds it, that observation is
  the scraped price at the time of the scrape.
\<close>

theorem priceChanged_extends_ledger:
  assumes "buildUpdatedProduct g s e = Inr (PriceChanged, p)"
  shows "length (priceHistory p) = length (priceHistory e) + 1 \<and>
         take (length (priceHistory e)) (priceHistory p) = priceHistory e \<and>
         last (priceHistory p) = jsFirst (priceHistory s) \<and>
         currentPrice p = currentPrice s \<and>
         (playwrightElementToProduct startCase toNumber clock element cats = Some s \<longrightarrow>
            last (priceHistory p) =
              Some \<lparr>date = DateObject (snd (snd clock)), price = currentPrice s\<rparr>)"
  using assms
proof (cases rule: buildUpdatedProduct_cases)
  case PriceChanged
  then show ?thesis
    by (auto simp: jsFirst_def dest: playwrightElementToProduct_history)
qed simp_all

theorem priceChanged_extends_ledger_witness:
  "buildUpdatedProduct exampleGlobals scrapedTub storedTub =
     Inr (PriceChanged,
          scrapedTub\<lparr>priceHistory := priceHistory storedTub @ priceHistory scrapedTub\<rparr>) \<and>
   playwrightElementToProduct (\<lambda>text. text) (\<lambda>digits. toDouble 4.1)
     (TimeValue 1793584800000, TimeValue 1793584800001, TimeValue 1793584800002)
     exampleEntry [''tubs''] = Some scrapedTub \<and>
   length (priceHistory storedTub @ priceHistory scrapedTub) = length (priceHistory storedTub) + 1 \<and>
   take (length (priceHistory storedTub)) (priceHistory storedTub @ priceHistory scrapedTub) =
     priceHistory storedTub \<and>
   last (priceHistory storedTub @ priceHistory scrapedTub) =
     Some \<lparr>date = DateObject (TimeValue 1793584800002), price = toDouble 4.1\<rparr>"
proof -
  have c: "currentPrice scrapedTub = toDouble 4.1" by (simp add: scrapedTub_def)
  from priceChanged_extends_ledger[OF example_first_call,
      of "\<lambda>text. text" "\<lambda>digits. toDouble 4.1"
         "(TimeValue 1793584800000, TimeValue 1793584800001, TimeValue 1793584800002)"
         exampleEntry "[''tubs'']"]
    exampleEntry_product example_first_call c
  show ?thesis by auto
qed

text \<open>
  C5. The claim: with no qualifying price change, a stored record whose category has an
  invalid tag or is absent gives \<^verbatim>\<open>InfoChanged\<close>. The code at a stored record with a
  null category and the stored price: \<^verbatim>\<open>dbProduct.category.every\<close> throws a TypeError
  before the test for null is reached.
\<close>

theorem null_category_throws:
  "buildUpdatedProduct exampleGlobals (scrapedTub\<lparr>currentPrice := Num 4\<rparr>)
     (storedTub\<lparr>category := None\<rparr>) = Inl TypeError"
proof -
  let ?s = "scrapedTub\<lparr>currentPrice := Num 4\<rparr>"
  let ?e = "storedTub\<lparr>category := None\<rparr>"
  obtain a b where a: "fieldToString (tzMinutes exampleGlobals) (lastUpdated ?e) = Inr a"
    and b: "fieldToISOString (lastUpdated ?s) = Inr b"
    by (rule example_strings[of ?s 1793584800001 ?e 1793581200000 exampleGlobals])
       (simp_all add: scrapedTub_def storedTub_def)
  have c: "\<not> (jsGt (jsAbs (jsSub (currentPrice ?e) (currentPrice ?s))) (toDouble 0.05) \<and>
       jsSlice a 0 10 \<noteq> jsSlice b 0 10)"
    by (simp add: storedTub_def toDouble_zero jsGt_zero_toDouble)
  from buildUpdatedProduct_otherwise[OF a b c] show ?thesis by simp
qed

text \<open>
  The rest of that claim holds: an invalid tag in a stored category that is not null
  gives \<^verbatim>\<open>InfoChanged\<close> with the scraped fields, the stored history and the stored
  \<open>lastUpdated\<close>.
\<close>

lemma infoChanged_frame:
  assumes "buildUpdatedProduct g s e = Inr (d, p)"
    and "d \<noteq> PriceChanged"
    and "category e = Some tags"
    and "\<not> list_all (\<lambda>c. c \<in> set (validCategories g)) tags"
  shows "d = InfoChanged \<and> category p = category s \<and> id_f p = id_f s \<and> name p = name s \<and>
         size_f p = size_f s \<and> sourceSite p = sourceSite s \<and> currentPrice p = currentPrice s \<and>
         priceHistory p = priceHistory e \<and> lastUpdated p = lastUpdated e"
  using assms(1)
proof (cases rule: buildUpdatedProduct_cases)
  case PriceChanged
  with assms(2) show ?thesis by simp
next
  case (InfoChanged tags')
  then show ?thesis by simp
next
  case (AlreadyUpToDate tags')
  with assms(3,4) show ?thesis by simp
qed

text \<open>
  C6, the claim refuted: the first call returns \<^verbatim>\<open>PriceChanged\<close> and a product with
  the scraped category \<^verbatim>\<open>tubs\<close>, which is not a valid one; the second call, on that
  product, returns \<^verbatim>\<open>InfoChanged\<close>.
\<close>

theorem second_call_infoChanged:
  "buildUpdatedProduct exampleGlobals scrapedTub storedTub =
     Inr (PriceChanged,
          scrapedTub\<lparr>priceHistory := priceHistory storedTub @ priceHistory scrapedTub\<rparr>) \<and>
   buildUpdatedProduct exampleGlobals scrapedTub
       (scrapedTub\<lparr>priceHistory := priceHistory storedTub @ priceHistory scrapedTub\<rparr>) =
     Inr (InfoChanged,
          scrapedTub\<lparr>priceHistory := priceHistory storedTub @ priceHistory scrapedTub\<rparr>)"
proof -
  let ?p = "scrapedTub\<lparr>priceHistory := priceHistory storedTub @ priceHistory scrapedTub\<rparr>"
  obtain a b where a: "fieldToString (tzMinutes exampleGlobals) (lastUpdated ?p) = Inr a"
    and b: "fieldToISOString (lastUpdated scrapedTub) = Inr b"
    by (rule example_strings[of scrapedTub 1793584800001 ?p 1793584800001 exampleGlobals])
       (simp_all add: scrapedTub_def)
  have c: "\<not> (jsGt (jsAbs (jsSub (currentPrice ?p) (currentPrice scrapedTub))) (toDouble 0.05) \<and>
       jsSlice a 0 10 \<noteq> jsSlice b 0 10)"
    by (simp add: jsGt_self)
  from buildUpdatedProduct_otherwise[OF a b c]
  have "buildUpdatedProduct exampleGlobals scrapedTub ?p = Inr (InfoChanged, ?p)"
    by (simp add: exampleGlobals_def scrapedTub_def)
  with example_first_call show ?thesis by blast
qed

text \<open>
  C6, amended. When the first call returns \<^verbatim>\<open>AlreadyUpToDate\<close>, or the scraped
  categories are present and all valid, the second call, with the scraped product as it
  was passed to the first call and the product of the first call as the stored record,
  returns \<^verbatim>\<open>AlreadyUpToDate\<close>.
\<close>

theorem second_call_upToDate:
  assumes "buildUpdatedProduct g s e = Inr (d, p)"
    and "d = AlreadyUpToDate \<or> allValid g (category s)"
  shows "buildUpdatedProduct g s p = Inr (AlreadyUpToDate, p\<lparr>lastChecked := lastChecked s\<rparr>)"
proof -
  from assms(1) obtain dbString scrapedString where
    db: "fieldToString (tzMinutes g) (lastUpdated e) = Inr dbString" and
    sc: "fieldToISOString (lastUpdated s) = Inr scrapedString"
    by (auto simp: buildUpdatedProduct_def split: sum.splits)
  from fieldToISOString_DateObject[OF sc] obtain t where
    t: "lastUpdated s = DateObject (TimeValue t)" ..
  from assms(1) show ?thesis
  proof (cases rule: buildUpdatedProduct_cases)
    case PriceChanged
    with assms(2) sc t show ?thesis
      by (auto simp: buildUpdatedProduct_def Let_def allValid_def jsGt_self fieldToString_def
          split: option.splits)
  next
    case (InfoChanged tags)
    with assms(2) sc db show ?thesis
      by (auto simp: buildUpdatedProduct_def Let_def allValid_def jsGt_self
          split: option.splits)
  next
    case (AlreadyUpToDate tags)
    from assms(1) have
      "\<not> (jsGt (jsAbs (jsSub (currentPrice e) (currentPrice s))) (toDouble 0.05) \<and>
          jsSlice dbString 0 10 \<noteq> jsSlice scrapedString 0 10)"
      using AlreadyUpToDate(1) db sc
      by (auto simp: buildUpdatedProduct_def Let_def split: if_splits)
    with AlreadyUpToDate sc db show ?thesis
      by (simp add: buildUpdatedProduct_def Let_def)
  qed
qed

theorem second_call_upToDate_witness:
  "buildUpdatedProduct exampleGlobals (scrapedTub\<lparr>category := Some [''frozen'']\<rparr>) storedTub =
     Inr (PriceChanged,
          scrapedTub\<lparr>category := Some [''frozen''],
                     priceHistory := priceHistory storedTub @ priceHistory scrapedTub\<rparr>) \<and>
   allValid exampleGlobals (category (scrapedTub\<lparr>category := Some [''frozen'']\<rparr>)) \<and>
   buildUpdatedProduct exampleGlobals (scrapedTub\<lparr>category := Some [''frozen'']\<rparr>)
       (scrapedTub\<lparr>category := Some [''frozen''],
                  priceHistory := priceHistory storedTub @ priceHistory scrapedTub\<rparr>) =
     Inr (AlreadyUpToDate,
          scrapedTub\<lparr>category := Some [''frozen''],
                     priceHistory := priceHistory storedTub @ priceHistory scrapedTub\<rparr>)"
proof -
  let ?s = "scrapedTub\<lparr>category := Some [''frozen'']\<rparr>"
  have "buildUpdatedProduct exampleGlobals ?s storedTub =
     Inr (PriceChanged, ?s\<lparr>priceHistory := priceHistory storedTub @ [jsFirst (priceHistory ?s)]\<rparr>)"
    by (rule buildUpdatedProduct_DateObject
          [where t = 1793584800001 and d = "TimeValue 1793581200000"])
       (simp_all add: storedTub_def scrapedTub_def sample_numbers del: jsSub.simps)
  then have first: "buildUpdatedProduct exampleGlobals ?s storedTub =
     Inr (PriceChanged,
          scrapedTub\<lparr>category := Some [''frozen''],
                     priceHistory := priceHistory storedTub @ priceHistory scrapedTub\<rparr>)"
    by (simp add: scrapedTub_def jsFirst_def)
  have v: "allValid exampleGlobals (category ?s)"
    by (simp add: allValid_def exampleGlobals_def)
  from second_call_upToDate[OF first] v first show ?thesis
    by (simp add: scrapedTub_def)
qed

section \<open>upsertProductToMySQL\<close>

lemma upsertProductToMySQL_returns: "\<exists>d conn'. upsertProductToMySQL g conn s = Inr (d, conn')"
  by (auto simp: upsertProductToMySQL_def split: sum.splits)

lemma upsertProductToMySQL_decision:
  assumes "upsertProductToMySQL g conn s = Inr (d, conn')"
  shows "d \<in> {NewProduct, PriceChanged, InfoChanged, AlreadyUpToDate, Failed}"
proof (cases "upsertBody g conn s")
  case (Inl err)
  with assms show ?thesis by (simp add: upsertProductToMySQL_def)
next
  case (Inr r)
  with assms have r: "upsertBody g conn s = Inr (d, conn')"
    by (simp add: upsertProductToMySQL_def)
  show ?thesis
  proof (cases "executeSelect conn (id_f s)")
    case (Inl err)
    with r show ?thesis by (simp add: upsertBody_def)
  next
    case rows: (Inr rows)
    show ?thesis
    proof (cases rows)
      case Nil
      with r rows show ?thesis by (auto simp: upsertBody_def split: sum.splits)
    next
      case (Cons e rest)
      with r rows obtain p where "buildUpdatedProduct g s e = Inr (d, p)"
        by (auto simp: upsertBody_def split: sum.splits)
      then show ?thesis by (cases rule: buildUpdatedProduct_cases) simp_all
    qed
  qed
qed

text \<open>A rejected \<^verbatim>\<open>SELECT\<close> or \<^verbatim>\<open>INSERT\<close> is caught: the decision is
  \<^verbatim>\<open>Failed\<close> and the table is as it was.\<close>

lemma upsert_rejected:
  assumes "products conn (id_f s) = None"
    and "selectError conn \<noteq> None \<or> writeError conn \<noteq> None"
  shows "upsertProductToMySQL g conn s = Inr (Failed, conn)"
  using assms
  by (auto simp: upsertProductToMySQL_def upsertBody_def executeSelect_def executeInsert_def
      split: option.splits)

text \<open>
  C3, the claim refuted: a validated scraped product whose id has no row, on a server that
  rejects the \<^verbatim>\<open>INSERT\<close>. The decision is \<^verbatim>\<open>Failed\<close>, not \<^verbatim>\<open>NewProduct\<close>, and
  nothing is persisted.
\<close>

theorem rejected_insert_fails:
  "playwrightElementToProduct (\<lambda>text. text) (\<lambda>digits. toDouble 4.1)
     (TimeValue 1793584800000, TimeValue 1793584800001, TimeValue 1793584800002)
     exampleEntry [''tubs''] = Some scrapedTub \<and>
   products rejectingConnection (id_f scrapedTub) = None \<and>
   selectError rejectingConnection = None \<and>
   upsertProductToMySQL exampleGlobals rejectingConnection scrapedTub =
     Inr (Failed, rejectingConnection)"
proof -
  have n: "products rejectingConnection (id_f scrapedTub) = None"
    and e: "selectError rejectingConnection = None"
    and w: "selectError rejectingConnection \<noteq> None \<or> writeError rejectingConnection \<noteq> None"
    by (simp_all add: rejectingConnection_def emptyConnection_def)
  from upsert_rejected[OF n w, of exampleGlobals] exampleEntry_product n e
  show ?thesis by blast
qed

text \<open>
  C3, amended. A validated scraped product, as \<^verbatim>\<open>playwrightElementToProduct\<close> returns
  it, whose id has no row: when the server accepts the \<^verbatim>\<open>SELECT\<close> and the
  \<^verbatim>\<open>INSERT\<close>, the decision is \<^verbatim>\<open>NewProduct\<close>, the row inserted is the scraped product
  as it is, and its history has exactly one entry, with the scraped price.
\<close>

theorem upsert_new_product:
  assumes "playwrightElementToProduct startCase toNumber clock element cats = Some s"
    and "products conn (id_f s) = None"
    and "selectError conn = None" and "writeError conn = None"
  shows "upsertProductToMySQL g conn s =
           Inr (NewProduct, conn\<lparr>products := (products conn)(id_f s \<mapsto> s)\<rparr>) \<and>
         (\<exists>dp. priceHistory s = [Some dp] \<and> price dp = currentPrice s)"
proof -
  from assms(2-4) have "upsertBody g conn s =
      Inr (NewProduct, conn\<lparr>products := (products conn)(id_f s \<mapsto> s)\<rparr>)"
    by (simp add: upsertBody_def executeSelect_def executeInsert_def)
  then have "upsertProductToMySQL g conn s =
      Inr (NewProduct, conn\<lparr>products := (products conn)(id_f s \<mapsto> s)\<rparr>)"
    by (simp add: upsertProductToMySQL_def)
  with playwrightElementToProduct_history[OF assms(1)] show ?thesis by simp
qed

theorem upsert_new_product_witness:
  "playwrightElementToProduct (\<lambda>text. text) (\<lambda>digits. toDouble 4.1)
     (TimeValue 1793584800000, TimeValue 1793584800001, TimeValue 1793584800002)
     exampleEntry [''tubs''] = Some scrapedTub \<and>
   products emptyConnection (id_f scrapedTub) = None \<and>
   selectError emptyConnection = None \<and> writeError emptyConnection = None \<and>
   upsertProductToMySQL exampleGlobals emptyConnection scrapedTub =
     Inr (NewProduct,
          emptyConnection\<lparr>products := (products emptyConnection)(id_f scrapedTub \<mapsto> scrapedTub)\<rparr>) \<and>
   priceHistory scrapedTub =
     [Some \<lparr>date = DateObject (TimeValue 1793584800002), price = toDouble 4.1\<rparr>]"
proof -
  have c: "products emptyConnection (id_f scrapedTub) = None"
    "selectError emptyConnection = None" "writeError emptyConnection = None"
    by (simp_all add: emptyConnection_def)
  have h: "priceHistory scrapedTub =
     [Some \<lparr>date = DateObject (TimeValue 1793584800002), price = toDouble 4.1\<rparr>]"
    by (simp add: scrapedTub_def)
  from upsert_new_product[OF exampleEntry_product c, of exampleGlobals] exampleEntry_product c h
  show ?thesis by blast
qed

text \<open>
  The \<^verbatim>\<open>UPDATE\<close> statement does not name \<open>lastChecked\<close>: whatever the decision,
  the row keeps the \<open>lastChecked\<close> it had, while the product that
  \<^verbatim>\<open>buildUpdatedProduct\<close> returns carries the scraped \<open>lastChecked\<close>.
\<close>

lemma executeUpdate_lastChecked:
  assumes "executeUpdate conn key p = Inr conn'" and "products conn key = Some e"
  shows "map_option lastChecked (products conn' key) = Some (lastChecked e)"
  using assms by (auto simp: executeUpdate_def split: option.splits)

lemma update_keeps_lastChecked:
  assumes "selectError conn = None" and "products conn (id_f s) = Some e"
    and "upsertProductToMySQL g conn s = Inr (d, conn')"
  shows "map_option lastChecked (products conn' (id_f s)) = Some (lastChecked e)"
proof (cases "upsertBody g conn s")
  case (Inl err)
  with assms show ?thesis by (simp add: upsertProductToMySQL_def)
next
  case (Inr r)
  with assms(3) have r: "upsertBody g conn s = Inr (d, conn')"
    by (simp add: upsertProductToMySQL_def)
  from assms(1,2) have "executeSelect conn (id_f s) = Inr [e]"
    by (simp add: executeSelect_def)
  with r obtain p where "executeUpdate conn (id_f s) p = Inr conn'"
    by (auto simp: upsertBody_def split: sum.splits)
  from executeUpdate_lastChecked[OF this assms(2)] show ?thesis .
qed

lemma buildUpdatedProduct_lastChecked:
  assumes "buildUpdatedProduct g s e = Inr (d, p)"
  shows "lastChecked p = lastChecked s"
  using assms by (cases rule: buildUpdatedProduct_cases) simp_all

text \<open>
  C8. The claim: after the upsert the row's \<open>lastChecked\<close> is the scraped
  \<open>lastChecked\<close>, whatever the decision. The code at the sample row, last checked at
  01:00, and the sample scrape, checked at 02:00: the decision is \<^verbatim>\<open>PriceChanged\<close> and
  the row's \<open>lastChecked\<close> is still 01:00.
\<close>

theorem update_leaves_lastChecked:
  "map_sum id fst (upsertProductToMySQL exampleGlobals exampleConnection scrapedTub) =
     Inr PriceChanged \<and>
   (case upsertProductToMySQL exampleGlobals exampleConnection scrapedTub of
      Inl err \<Rightarrow> None
    | Inr r \<Rightarrow> map_option lastChecked (products (snd r) ''12345'')) =
     Some (DateObject (TimeValue 1793581200000)) \<and>
   lastChecked scrapedTub = DateObject (TimeValue 1793584800000)"
proof -
  let ?p = "scrapedTub\<lparr>priceHistory := priceHistory storedTub @ priceHistory scrapedTub\<rparr>"
  have i: "id_f scrapedTub = ''12345''" by (simp add: scrapedTub_def)
  have u: "upsertBody exampleGlobals exampleConnection scrapedTub =
      map_sum id (Pair PriceChanged) (executeUpdate exampleConnection ''12345'' ?p)"
    by (simp add: upsertBody_def executeSelect_def exampleConnection_def example_first_call i
        split: sum.splits)
  have "\<exists>c. executeUpdate exampleConnection ''12345'' ?p = Inr c \<and>
        map_option lastChecked (products c ''12345'') = Some (lastChecked storedTub)"
    by (simp add: executeUpdate_def exampleConnection_def)
  then obtain c where c: "executeUpdate exampleConnection ''12345'' ?p = Inr c"
    "map_option lastChecked (products c ''12345'') = Some (lastChecked storedTub)"
    by blast
  with u have "upsertProductToMySQL exampleGlobals exampleConnection scrapedTub =
      Inr (PriceChanged, c)"
    by (simp add: upsertProductToMySQL_def)
  with c(2) show ?thesis by (simp add: storedTub_def scrapedTub_def)
qed

section \<open>upsertProductToFrappe\<close>

text \<open>
  C7. The claim: no exception reaches the caller of an upsert, in every backend.
  \<^verbatim>\<open>upsertProductToMySQL\<close> always returns (\<open>upsertProductToMySQL_returns\<close>). The Frappe
  code at a server that answers the GET with 404 and the POST with 500: the error of the
  POST, raised inside the \<^verbatim>\<open>catch\<close> block, reaches the caller.
\<close>

theorem frappe_create_failure_propagates:
  "upsertProductToFrappe failingServer scrapedTub = Inl (AxiosError (Some 500))"
  by (simp add: upsertProductToFrappe_def frappeBody_def failingServer_def responseStatus_def)

text \<open>
  C9. The claim: every upsert returns one of the five decisions. \<^verbatim>\<open>upsertProductToMySQL\<close>
  does (\<open>upsertProductToMySQL_decision\<close>). The Frappe code at a server that holds the
  record and accepts the PUT returns \<^verbatim>\<open>UpsertResponse.Updated\<close>, which is none of them.
\<close>

theorem frappe_returns_Updated:
  "upsertProductToFrappe updatingServer scrapedTub = Inr Updated \<and>
   Updated \<notin> {NewProduct, PriceChanged, InfoChanged, AlreadyUpToDate, Failed}"
  by (simp add: upsertProductToFrappe_def frappeBody_def updatingServer_def)

end
